theory Spec2Isabelle
  imports Main
begin

section \<open>docker-run-app: exit statuses and flag errors\<close>

text \<open>
  The two enumerations of \<^verbatim>\<open>main.go\<close> (lines 45-60), in the order of their
  \<^verbatim>\<open>iota\<close> declarations, and the integer that \<^verbatim>\<open>int(err)\<close> gives for each.
\<close>

datatype AppError =
    OK
  | AppStoppedWithError
  | CannotStartApp
  | FailedToKillApp
  | MissingArgument
  | InsufficientSignalError
  | InvalidCommand
  | BadFlag

fun int_of_AppError :: "AppError \<Rightarrow> int" where
  "int_of_AppError OK = 0"
| "int_of_AppError AppStoppedWithError = 1"
| "int_of_AppError CannotStartApp = 2"
| "int_of_AppError FailedToKillApp = 3"
| "int_of_AppError MissingArgument = 4"
| "int_of_AppError InsufficientSignalError = 5"
| "int_of_AppError InvalidCommand = 6"
| "int_of_AppError BadFlag = 7"

datatype FlagError = FlagFound | FlagNotFound | FlagHasTooFewParams

type_synonym ParamList = "string list"

text \<open>
  How a Go call ends: it returns a value, it ends the whole program through
  \<^verbatim>\<open>os.Exit(code)\<close> (\<^verbatim>\<open>log.Fatal\<close> is a print followed by
  \<^verbatim>\<open>os.Exit(1)\<close>), or it panics (here: an index out of range).
\<close>

datatype 'a go = Returns 'a | Exits int | Panics

fun go_bind :: "'a go \<Rightarrow> ('a \<Rightarrow> 'b go) \<Rightarrow> 'b go" where
  "go_bind (Returns x) f = f x"
| "go_bind (Exits n) f = Exits n"
| "go_bind Panics f = Panics"

section \<open>ParamList.getOr (lines 379-385)\<close>

text \<open>
  \<^verbatim>\<open>index\<close> is a Go \<^verbatim>\<open>int\<close>; no arithmetic is done on it, so an
  unbounded integer models it. The guard is the source's, the read is only reached
  inside the bounds.
\<close>

definition getOr :: "ParamList \<Rightarrow> int \<Rightarrow> string \<Rightarrow> string" where
  "getOr p index def =
     (if index < 0 \<or> index \<ge> int (length p) then def else p ! nat index)"

section \<open>eatFlag (lines 115-184)\<close>

text \<open>The closure \<^verbatim>\<open>hasFlag\<close>: a linear search of \<^verbatim>\<open>flags\<close>.\<close>

fun hasFlag :: "string list \<Rightarrow> string \<Rightarrow> bool" where
  "hasFlag [] arg = False"
| "hasFlag (f # flags) arg = (if f = arg then True else hasFlag flags arg)"

text \<open>\<^verbatim>\<open>strings.HasPrefix\<close> of the Go standard library.\<close>

definition HasPrefix :: "string \<Rightarrow> string \<Rightarrow> bool" where
  "HasPrefix s pre = (length s \<ge> length pre \<and> take (length pre) s = pre)"

text \<open>
  The inner loop (lines 156-165), \<^verbatim>\<open>for c := 0; c < availCount; c++\<close>. It writes
  \<^verbatim>\<open>params[c]\<close>, a slice of length \<^verbatim>\<open>paramCount\<close>; Go checks every index and
  panics outside the bounds, so both the read of \<^verbatim>\<open>args[a]\<close> and the write of
  \<^verbatim>\<open>params[c]\<close> carry their bound check here.
\<close>

datatype paramLoop_exit =
    ParamsEaten nat ParamList
  | PotentialFlag
  | IndexOutOfRange

function paramLoop :: "string list \<Rightarrow> nat \<Rightarrow> nat \<Rightarrow> nat \<Rightarrow> ParamList \<Rightarrow> paramLoop_exit" where
  "paramLoop args availCount c a params =
     (if c < availCount then
        (if a < length args then
           (if \<not> HasPrefix (args ! a) ''-'' then
              (if c < length params
               then paramLoop args availCount (c + 1) (a + 1) (params[c := args ! a])
               else IndexOutOfRange)
            else PotentialFlag)
         else IndexOutOfRange)
      else ParamsEaten a params)"
  by pat_completeness auto
termination
  by (relation "measure (\<lambda>(args, availCount, c, a, params). availCount - c)") auto

text \<open>
  The labelled loop \<^verbatim>\<open>ArgLoop\<close> (lines 138-175). It ends in one of three ways: it
  leaves the loop (by \<^verbatim>\<open>break\<close> or because \<^verbatim>\<open>a\<close> reached the end) with the
  variables \<^verbatim>\<open>a\<close>, \<^verbatim>\<open>b\<close>, \<^verbatim>\<open>remaining\<close>, \<^verbatim>\<open>params\<close>, \<^verbatim>\<open>err\<close>; it
  returns from \<^verbatim>\<open>eatFlag\<close> at once; or it panics.
\<close>

datatype argLoop_exit =
    LoopLeft nat nat "string list" ParamList FlagError
  | EarlyReturn ParamList "string list" FlagError
  | ArgLoopPanic

function argLoop :: "string list \<Rightarrow> string list \<Rightarrow> nat \<Rightarrow> nat \<Rightarrow> nat \<Rightarrow> string list \<Rightarrow> argLoop_exit" where
  "argLoop args flags paramCount a b remaining =
     (if a < length args then
        (if ''--'' = args ! a then
           LoopLeft (a + 1) b remaining [] FlagNotFound
         else if hasFlag flags (args ! a) then
           (let a' = a + 1; availCount = length args - a' in
            if availCount < paramCount then EarlyReturn [] args FlagHasTooFewParams
            else
              (case paramLoop args availCount 0 a' (replicate paramCount '''') of
                 ParamsEaten a'' params \<Rightarrow> LoopLeft a'' b remaining params FlagFound
               | PotentialFlag \<Rightarrow> EarlyReturn [] args FlagHasTooFewParams
               | IndexOutOfRange \<Rightarrow> ArgLoopPanic))
         else
           (if b < length remaining
            then argLoop args flags paramCount (a + 1) (b + 1) (remaining[b := args ! a])
            else ArgLoopPanic))
      else LoopLeft a b remaining [] FlagNotFound)"
  by pat_completeness auto
termination
  by (relation "measure (\<lambda>(args, flags, paramCount, a, b, remaining). length args - a)") auto

text \<open>The second loop (lines 178-181), which copies the arguments left.\<close>

function copyLoop :: "string list \<Rightarrow> nat \<Rightarrow> nat \<Rightarrow> string list \<Rightarrow> string list option" where
  "copyLoop args a b remaining =
     (if a < length args then
        (if b < length remaining
         then copyLoop args (a + 1) (b + 1) (remaining[b := args ! a])
         else None)
      else Some remaining)"
  by pat_completeness auto
termination
  by (relation "measure (\<lambda>(args, a, b, remaining). length args - a)") auto

text \<open>
  \<^verbatim>\<open>eatFlag\<close> itself. \<^verbatim>\<open>remaining\<close> is made with the length of \<^verbatim>\<open>args\<close>
  (line 134), every element the empty string, and is returned at that length.
\<close>

definition eatFlag :: "string list \<Rightarrow> string list \<Rightarrow> nat \<Rightarrow> (ParamList \<times> string list \<times> FlagError) go" where
  "eatFlag args flags paramCount =
     (if length args = 0 then Returns ([], args, FlagNotFound)
      else
        (case argLoop args flags paramCount 0 0 (replicate (length args) '''') of
           EarlyReturn params remaining err \<Rightarrow> Returns (params, remaining, err)
         | ArgLoopPanic \<Rightarrow> Panics
         | LoopLeft a b remaining params err \<Rightarrow>
             (case copyLoop args a b remaining of
                None \<Rightarrow> Panics
              | Some remaining' \<Rightarrow> Returns (params, remaining', err))))"

section \<open>parseFlags (lines 193-227)\<close>

text \<open>
  Three passes of \<^verbatim>\<open>eatFlag\<close>, each over what the pass before returned. The options
  are a Go map; reading a key that is absent gives the empty string.
\<close>

definition parseFlags :: "string list \<Rightarrow> ((string \<rightharpoonup> string) \<times> string list) go" where
  "parseFlags args =
     go_bind (eatFlag args [''-V'', ''--version''] 0) (\<lambda>(_, remaining, flagErr).
       if flagErr = FlagFound then Exits (int_of_AppError OK)
       else
     go_bind (eatFlag remaining [''-h'', ''--help''] 0) (\<lambda>(_, remaining, flagErr).
       if flagErr = FlagFound then Exits (int_of_AppError OK)
       else
     go_bind (eatFlag remaining [''--init-log''] 1) (\<lambda>(params, remaining, flagErr).
       if flagErr = FlagHasTooFewParams then Exits (int_of_AppError BadFlag)
       else Returns (Map.empty(''init-log'' \<mapsto> getOr params 0 ''''), remaining))))"

definition option_of :: "(string \<rightharpoonup> string) \<Rightarrow> string \<Rightarrow> string" where
  "option_of options key = (case options key of None \<Rightarrow> '''' | Some v \<Rightarrow> v)"

text \<open>
  The command that \<^verbatim>\<open>main\<close> builds from the parsed arguments (lines 86-99):
  \<^verbatim>\<open>None\<close> when there is no command, else the path and the argument list handed
  to \<^verbatim>\<open>exec.Command\<close>.
\<close>

definition command_of :: "string list \<Rightarrow> (string \<times> string list) option" where
  "command_of args =
     (if length args = 0 then None
      else Some (hd args, if length args > 1 then tl args else []))"

section \<open>Signals, errors and the child process\<close>

text \<open>
  \<^verbatim>\<open>syscall.Signal\<close> is an integer type; the three signals the program names have
  their Linux numbers. A Go \<^verbatim>\<open>error\<close> is \<^verbatim>\<open>nil\<close> (\<open>None\<close>) or carries a
  message.
\<close>

type_synonym syscall_Signal = int
type_synonym error = "string option"

definition SIGHUP :: syscall_Signal where "SIGHUP = 1"
definition SIGINT :: syscall_Signal where "SIGINT = 2"
definition SIGTERM :: syscall_Signal where "SIGTERM = 15"

text \<open>
  Durations are nanoseconds, as in Go's \<^verbatim>\<open>time\<close> package; \<^verbatim>\<open>SIG_TIMEOUT\<close> is
  the constant of lines 41-43.
\<close>

definition Second :: nat where "Second = 1000000000"
definition SIG_TIMEOUT :: nat where "SIG_TIMEOUT = Second * 2"

text \<open>
  What the operating system does with one \<^verbatim>\<open>p.Signal\<close> call made in the goroutine of
  lines 318-321: after \<open>elapsed\<close> nanoseconds the call's result \<open>result\<close> is sent on
  the channel \<^verbatim>\<open>c\<close>. Should the result and the timer be ready together, Go's
  \<^verbatim>\<open>select\<close> picks either case; \<open>timer_first\<close> is that choice.
\<close>

record delivery =
  elapsed :: nat
  result :: error
  timer_first :: bool

text \<open>
  The child process \<^verbatim>\<open>*os.Process\<close>: the environment fixes how the n-th
  \<^verbatim>\<open>Signal\<close> call is answered and what \<^verbatim>\<open>Kill\<close> returns; \<open>calls\<close> is the
  history of the calls made on the process, which each call extends.
\<close>

datatype call = Signal syscall_Signal | Kill

record Process =
  respond :: "nat \<Rightarrow> delivery"
  kill_err :: error
  calls :: "call list"

definition Process_Signal :: "Process \<Rightarrow> syscall_Signal \<Rightarrow> Process \<times> delivery" where
  "Process_Signal p sig = (p\<lparr>calls := calls p @ [Signal sig]\<rparr>, respond p (length (calls p)))"

definition Process_Kill :: "Process \<Rightarrow> Process \<times> error" where
  "Process_Kill p = (p\<lparr>calls := calls p @ [Kill]\<rparr>, kill_err p)"

text \<open>
  The \<^verbatim>\<open>select\<close> of lines 323-332: the case that receives from \<^verbatim>\<open>c\<close> against the
  case that receives from \<^verbatim>\<open>time.After(SIG_TIMEOUT)\<close>. Every call of
  \<^verbatim>\<open>stopProcess\<close> makes a new timer, so \<open>elapsed\<close> is measured from the start of
  the attempt it belongs to.
\<close>

datatype race = FromC error | FromTimer

definition select_race :: "delivery \<Rightarrow> race" where
  "select_race d =
     (if elapsed d < SIG_TIMEOUT then FromC (result d)
      else if SIG_TIMEOUT < elapsed d then FromTimer
      else if timer_first d then FromTimer
      else FromC (result d))"

section \<open>stopProcess (lines 308-333)\<close>

text \<open>
  With no signal left: \<^verbatim>\<open>p.Kill()\<close>; an error of the kill goes to
  \<^verbatim>\<open>log.Fatal\<close>, which ends the program with status 1; otherwise line 313 returns
  \<^verbatim>\<open>nil, FailedToKillApp\<close>. With a signal: the delivery raced against the timer,
  and the recursion on \<^verbatim>\<open>sigs[1:]\<close>.
\<close>

fun stopProcess :: "Process \<Rightarrow> syscall_Signal list \<Rightarrow> Process \<times> (syscall_Signal option \<times> AppError) go" where
  "stopProcess p [] =
     (case Process_Kill p of
        (p', err) \<Rightarrow>
          if err \<noteq> None then (p', Exits 1)
          else (p', Returns (None, FailedToKillApp)))"
| "stopProcess p (sig0 # sigs) =
     (case Process_Signal p sig0 of
        (p', d) \<Rightarrow>
          (case select_race d of
             FromC err \<Rightarrow>
               if err = None then (p', Returns (Some sig0, OK))
               else stopProcess p' sigs
           | FromTimer \<Rightarrow> stopProcess p' sigs))"

section \<open>runCommand (lines 229-300)\<close>

text \<open>
  The environment of one run: whether \<^verbatim>\<open>cmd.Start\<close> fails, which case of the
  \<^verbatim>\<open>select\<close> of line 267 fires (the child ended with an exit code, or a signal
  arrived), and the child process. \<^verbatim>\<open>cmd.Wait\<close> returns \<^verbatim>\<open>nil\<close> for exit code
  zero and an \<^verbatim>\<open>ExitError\<close> otherwise. The pipes and the two copy goroutines are
  left out: they do not touch what is returned.
\<close>

datatype event = ChildExited int | SignalReceived syscall_Signal

record world =
  log_opens :: bool
  start_err :: error
  first_event :: event
  proc :: Process

definition cmd_Wait :: "int \<Rightarrow> error" where
  "cmd_Wait code = (if code = 0 then None else Some ''exit status'')"

text \<open>
  A failing \<^verbatim>\<open>cmd.Start\<close> reaches \<^verbatim>\<open>log.Fatal(err)\<close> on line 251, which ends the
  program with status 1; the two statements after it (lines 252-253) are never run. The
  switch of lines 289-296 compares the signal that worked with the signal received,
  then with \<^verbatim>\<open>SIGINT\<close>.
\<close>

definition runCommand :: "world \<Rightarrow> Process \<times> AppError go" where
  "runCommand w =
     (if start_err w \<noteq> None then (proc w, Exits 1)
      else
        (case first_event w of
           ChildExited code \<Rightarrow>
             if cmd_Wait code = None then (proc w, Returns OK)
             else (proc w, Returns AppStoppedWithError)
         | SignalReceived sig \<Rightarrow>
             (case stopProcess (proc w) [sig, SIGTERM, SIGHUP] of
                (p', Exits n) \<Rightarrow> (p', Exits n)
              | (p', Panics) \<Rightarrow> (p', Panics)
              | (p', Returns (sigSuccess, err)) \<Rightarrow>
                  if err \<noteq> OK then (p', Returns err)
                  else if sigSuccess = Some sig then (p', Returns OK)
                  else if sigSuccess = Some SIGINT then (p', Returns OK)
                  else (p', Returns InsufficientSignalError))))"

section \<open>main (lines 66-107)\<close>

text \<open>
  \<^verbatim>\<open>main\<close> ends the program in every case. \<open>NormalExit\<close> is the end through lines
  102-106 (the log file closed, then \<^verbatim>\<open>os.Exit(int(err))\<close>), with the destination of
  the log, the command that was run and the calls made on the child; \<open>AbruptExit\<close> is
  an \<^verbatim>\<open>os.Exit\<close> or \<^verbatim>\<open>log.Fatal\<close> before those lines; \<open>Panicked\<close> is a run-time
  panic.
\<close>

datatype log_dest = Stderr | LogFile string

datatype main_end =
    NormalExit int log_dest "(string \<times> string list) option" "call list"
  | AbruptExit int
  | Panicked

definition main_go :: "string list \<Rightarrow> world \<Rightarrow> main_end" where
  "main_go argv w =
     (case parseFlags argv of
        Panics \<Rightarrow> Panicked
      | Exits n \<Rightarrow> AbruptExit n
      | Returns (options, args) \<Rightarrow>
          (let dest =
                 (if option_of options ''init-log'' \<noteq> '''' \<and> log_opens w
                  then LogFile (option_of options ''init-log'') else Stderr)
           in case command_of args of
                None \<Rightarrow> NormalExit (int_of_AppError MissingArgument) dest None []
              | Some cmd \<Rightarrow>
                  (case runCommand w of
                     (p', Returns err) \<Rightarrow> NormalExit (int_of_AppError err) dest (Some cmd) (calls p')
                   | (p', Exits n) \<Rightarrow> AbruptExit n
                   | (p', Panics) \<Rightarrow> Panicked)))"

section \<open>Example environments\<close>

text \<open>
  Concrete deliveries, children and worlds, on which the theorems below are evaluated:
  a delivery acknowledged at once, one refused with an error at once, and one that
  answers only after three seconds. \<open>child ds k\<close> answers its n-th \<^verbatim>\<open>Signal\<close> call
  with the n-th element of \<open>ds\<close> (a refusal once the list is used up) and its
  \<^verbatim>\<open>Kill\<close> with \<open>k\<close>.
\<close>

definition acked :: delivery where
  "acked = \<lparr>elapsed = 1000, result = None, timer_first = False\<rparr>"

definition refused :: delivery where
  "refused = \<lparr>elapsed = 1000, result = Some ''os: process already finished'', timer_first = False\<rparr>"

definition late :: delivery where
  "late = \<lparr>elapsed = 3 * Second, result = None, timer_first = False\<rparr>"

definition child :: "delivery list \<Rightarrow> error \<Rightarrow> Process" where
  "child ds k =
     \<lparr>respond = (\<lambda>n. if n < length ds then ds ! n else refused), kill_err = k, calls = []\<rparr>"

definition world_of :: "error \<Rightarrow> event \<Rightarrow> Process \<Rightarrow> world" where
  "world_of e ev p = \<lparr>log_opens = True, start_err = e, first_event = ev, proc = p\<rparr>"

section \<open>Properties\<close>

lemmas env_defs = acked_def refused_def late_def child_def world_of_def SIG_TIMEOUT_def
  Second_def select_race_def Process_Signal_def Process_Kill_def SIGINT_def SIGTERM_def
  SIGHUP_def

lemmas main_defs = main_go_def parseFlags_def eatFlag_def HasPrefix_def command_of_def
  option_of_def getOr_def runCommand_def cmd_Wait_def

subsection \<open>The two equations of stopProcess\<close>

lemma stopProcess_empty:
  "stopProcess p [] =
     (p\<lparr>calls := calls p @ [Kill]\<rparr>,
      if kill_err p = None then Returns (None, FailedToKillApp) else Exits 1)"
  by (simp add: Process_Kill_def)

lemma stopProcess_Cons:
  "stopProcess p (s # sigs) =
     (if select_race (respond p (length (calls p))) = FromC None
      then (p\<lparr>calls := calls p @ [Signal s]\<rparr>, Returns (Some s, OK))
      else stopProcess (p\<lparr>calls := calls p @ [Signal s]\<rparr>) sigs)"
  by (simp add: Process_Signal_def split: race.splits)

subsection \<open>What eatFlag returns behind the marker and behind a flag\<close>

text \<open>
  The copy loop writes the arguments from \<^verbatim>\<open>a\<close> on into \<^verbatim>\<open>remaining\<close> from
  \<^verbatim>\<open>b\<close> on and leaves the rest of \<^verbatim>\<open>remaining\<close> as it was. So a marker in
  front is dropped and an empty string is left at the end, for every argument list;
  and a flag with one parameter, followed by two tokens without a dash, runs the
  parameter loop out of the bounds of \<^verbatim>\<open>params\<close>.
\<close>

lemma copyLoop_copies:
  "a \<le> length args \<Longrightarrow> b + (length args - a) \<le> length remaining \<Longrightarrow>
   copyLoop args a b remaining =
     Some (take b remaining @ drop a args @ drop (b + (length args - a)) remaining)"
proof (induction args a b remaining rule: copyLoop.induct)
  case (1 args a b remaining)
  show ?case
  proof (cases "a < length args")
    case False
    with "1.prems" show ?thesis by simp
  next
    case True
    with "1.prems" have b: "b < length remaining" by simp
    have idx: "b + 1 + (length args - (a + 1)) = b + (length args - a)"
      using True by arith
    have step: "copyLoop args a b remaining = copyLoop args (a + 1) (b + 1) (remaining[b := args ! a])"
      using True b by simp
    have "copyLoop args (a + 1) (b + 1) (remaining[b := args ! a]) =
        Some (take (b + 1) (remaining[b := args ! a]) @ drop (a + 1) args @
          drop (b + 1 + (length args - (a + 1))) (remaining[b := args ! a]))"
      using "1.IH" [OF True b] True "1.prems" by simp
    also have "take (b + 1) (remaining[b := args ! a]) = take b remaining @ [args ! a]"
      using b by (simp add: take_Suc_conv_app_nth)
    also have "drop (b + 1 + (length args - (a + 1))) (remaining[b := args ! a]) =
        drop (b + (length args - a)) remaining"
    proof -
      have "b < b + (length args - a)"
        using True by arith
      then show ?thesis
        unfolding idx by simp
    qed
    finally show ?thesis
      using True step by (simp add: Cons_nth_drop_Suc)
  qed
qed

lemma drop_blank_tail: "drop (length rest) (x # replicate (length rest) x) = [x]"
  by (induction rest) simp_all

lemma eatFlag_marker_first:
  "eatFlag (''--'' # rest) flags paramCount = Returns ([], rest @ [''''], FlagNotFound)"
proof -
  let ?args = "''--'' # rest"
  let ?remaining = "replicate (length ?args) ''''"
  have "copyLoop ?args 1 0 ?remaining =
      Some (take 0 ?remaining @ drop 1 ?args @ drop (0 + (length ?args - 1)) ?remaining)"
    by (rule copyLoop_copies) simp_all
  also have "take 0 ?remaining @ drop 1 ?args @ drop (0 + (length ?args - 1)) ?remaining =
      rest @ ['''']"
    by (simp add: drop_blank_tail)
  finally have copy: "copyLoop ?args 1 0 ?remaining = Some (rest @ [''''])" .
  have "argLoop ?args flags paramCount 0 0 ?remaining = LoopLeft 1 0 ?remaining [] FlagNotFound"
    by simp
  then show ?thesis
    unfolding eatFlag_def using copy by (simp del: copyLoop.simps argLoop.simps replicate.simps)
qed

lemma eatFlag_init_log_command:
  assumes "\<not> HasPrefix FILE ''-''" and "\<not> HasPrefix CMD ''-''"
  shows "eatFlag (''--init-log'' # FILE # CMD # rest) [''--init-log''] 1 = Panics"
  using assms by (simp add: eatFlag_def)

subsection \<open>getOr\<close>

text \<open>
  C10. \<^verbatim>\<open>getOr\<close> is total: for every list, every integer index and every default it
  returns the element at the index when the index is inside the list, and the default
  for every other index, negative ones included.
\<close>

theorem getOr_total:
  "(0 \<le> i \<and> i < int (length p) \<longrightarrow> getOr p i d = p ! nat i) \<and>
   (i < 0 \<or> int (length p) \<le> i \<longrightarrow> getOr p i d = d)"
  by (simp add: getOr_def)

theorem getOr_total_witness:
  "getOr [''a'', ''b''] 1 ''z'' = ''b'' \<and> getOr [''a'', ''b''] (-1) ''z'' = ''z'' \<and>
   getOr [''a'', ''b''] 2 ''z'' = ''z''"
  using getOr_total [of 1 "[''a'', ''b'']" "''z''"]
    getOr_total [of "-1" "[''a'', ''b'']" "''z''"]
    getOr_total [of 2 "[''a'', ''b'']" "''z''"]
  by simp

subsection \<open>One step of the escalation\<close>

text \<open>
  C1. For every non-empty signal sequence, one step of \<^verbatim>\<open>stopProcess\<close> races the
  delivery of the head signal against a timer of \<^verbatim>\<open>SIG_TIMEOUT\<close>, which is two
  seconds. When the delivery is acknowledged without error before the timer (or
  together with it and \<^verbatim>\<open>select\<close> takes the delivery), the result is \<^verbatim>\<open>OK\<close> with
  the head signal as the signal that worked. When the delivery returns an error, or the
  timer comes first (or together with the delivery and \<^verbatim>\<open>select\<close> takes the timer),
  the result is that of \<^verbatim>\<open>stopProcess\<close> on the tail, a strictly shorter sequence,
  whose own delivery is again measured against the whole of \<^verbatim>\<open>SIG_TIMEOUT\<close>.
\<close>

theorem stopProcess_step:
  "SIG_TIMEOUT = 2 * Second \<and>
   (result (respond p (length (calls p))) = None \<and>
    (elapsed (respond p (length (calls p))) < SIG_TIMEOUT \<or>
     elapsed (respond p (length (calls p))) = SIG_TIMEOUT \<and>
       \<not> timer_first (respond p (length (calls p))))
    \<longrightarrow> stopProcess p (s # sigs) =
          (p\<lparr>calls := calls p @ [Signal s]\<rparr>, Returns (Some s, OK))) \<and>
   (result (respond p (length (calls p))) \<noteq> None \<or>
    SIG_TIMEOUT < elapsed (respond p (length (calls p))) \<or>
    elapsed (respond p (length (calls p))) = SIG_TIMEOUT \<and>
      timer_first (respond p (length (calls p)))
    \<longrightarrow> stopProcess p (s # sigs) = stopProcess (p\<lparr>calls := calls p @ [Signal s]\<rparr>) sigs \<and>
        length sigs < length (s # sigs))"
  by (auto simp: SIG_TIMEOUT_def Process_Signal_def select_race_def)

theorem stopProcess_step_witness:
  "stopProcess (child [acked] None) [SIGINT, SIGTERM] =
     ((child [acked] None)\<lparr>calls := [Signal SIGINT]\<rparr>, Returns (Some SIGINT, OK)) \<and>
   stopProcess (child [refused, acked] None) [SIGINT, SIGTERM] =
     stopProcess ((child [refused, acked] None)\<lparr>calls := [Signal SIGINT]\<rparr>) [SIGTERM] \<and>
   stopProcess (child [late, acked] None) [SIGINT, SIGTERM] =
     stopProcess ((child [late, acked] None)\<lparr>calls := [Signal SIGINT]\<rparr>) [SIGTERM]"
  using stopProcess_step [of "child [acked] None" SIGINT "[SIGTERM]"]
    stopProcess_step [of "child [refused, acked] None" SIGINT "[SIGTERM]"]
    stopProcess_step [of "child [late, acked] None" SIGINT "[SIGTERM]"]
  by (simp add: acked_def refused_def late_def child_def Second_def del: stopProcess.simps)

subsection \<open>The forced kill\<close>

text \<open>
  C2. With an empty signal sequence \<^verbatim>\<open>stopProcess\<close> makes one \<^verbatim>\<open>Kill\<close> call and
  no other. When the kill succeeds, line 313 returns no signal together with
  \<^verbatim>\<open>FailedToKillApp\<close>; when the kill fails, \<^verbatim>\<open>log.Fatal\<close> ends the program with
  status 1. So \<^verbatim>\<open>FailedToKillApp\<close> is what the code reports for a kill that worked,
  and it is not what a failed kill gives.
\<close>

theorem stopProcess_kill_status:
  "stopProcess (child [] None) [] =
     ((child [] None)\<lparr>calls := [Kill]\<rparr>, Returns (None, FailedToKillApp)) \<and>
   stopProcess (child [] (Some ''os: process already finished'')) [] =
     ((child [] (Some ''os: process already finished''))\<lparr>calls := [Kill]\<rparr>, Exits 1) \<and>
   main_go [''/bin/app''] (world_of None (SignalReceived SIGINT) (child [] None)) =
     NormalExit (int_of_AppError FailedToKillApp) Stderr (Some (''/bin/app'', []))
       [Signal SIGINT, Signal SIGTERM, Signal SIGHUP, Kill]"
  by (simp add: env_defs main_defs)

subsection \<open>Termination of the escalation\<close>

text \<open>
  C3. For every signal sequence \<open>S\<close> and every child, \<^verbatim>\<open>stopProcess\<close> ends after
  \<open>n\<close> calls on the process, at least one and at most \<open>length S + 1\<close>: the calls are
  the first \<open>n\<close> of the signals of \<open>S\<close> in order followed by the kill. It ends with
  the n-th signal accepted when \<open>n \<le> length S\<close>, and else, after the kill, with the
  return of line 313 or the exit of \<^verbatim>\<open>log.Fatal\<close>. The function is defined by
  structural recursion on the sequence, each call being on the tail.
\<close>

theorem stopProcess_terminates:
  "\<exists>n r. stopProcess p S = (p\<lparr>calls := calls p @ take n (map Signal S @ [Kill])\<rparr>, r) \<and>
     1 \<le> n \<and> n \<le> length S + 1 \<and>
     (if n \<le> length S then r = Returns (Some (S ! (n - 1)), OK)
      else r = Returns (None, FailedToKillApp) \<or> r = Exits 1)"
proof (induction S arbitrary: p)
  case Nil
  show ?case
    by (rule exI [of _ 1]) (auto simp add: stopProcess_empty simp del: stopProcess.simps)
next
  case (Cons s sigs)
  show ?case
  proof (cases "select_race (respond p (length (calls p))) = FromC None")
    case True
    then show ?thesis
      by (intro exI [of _ 1]) (simp add: stopProcess_Cons del: stopProcess.simps)
  next
    case False
    let ?p' = "p\<lparr>calls := calls p @ [Signal s]\<rparr>"
    from Cons.IH [of ?p'] obtain n r where
      run: "stopProcess ?p' sigs =
              (?p'\<lparr>calls := calls ?p' @ take n (map Signal sigs @ [Kill])\<rparr>, r)"
      and n: "1 \<le> n" "n \<le> length sigs + 1"
      and r: "if n \<le> length sigs then r = Returns (Some (sigs ! (n - 1)), OK)
              else r = Returns (None, FailedToKillApp) \<or> r = Exits 1"
      by blast
    have "stopProcess p (s # sigs) =
        (p\<lparr>calls := calls p @ take (Suc n) (map Signal (s # sigs) @ [Kill])\<rparr>, r)"
      using False run by (simp add: stopProcess_Cons del: stopProcess.simps)
    moreover have "1 \<le> Suc n" "Suc n \<le> length (s # sigs) + 1"
      using n by simp_all
    moreover have "if Suc n \<le> length (s # sigs)
        then r = Returns (Some ((s # sigs) ! (Suc n - 1)), OK)
        else r = Returns (None, FailedToKillApp) \<or> r = Exits 1"
      using r n by (cases n) (auto split: if_splits)
    ultimately show ?thesis by blast
  qed
qed

theorem stopProcess_terminates_witness:
  "length (calls (fst (stopProcess (child [late, refused] None) [SIGINT, SIGTERM]))) \<le> 3 \<and>
   (snd (stopProcess (child [late, refused] None) [SIGINT, SIGTERM]) = Returns (Some SIGINT, OK) \<or>
    snd (stopProcess (child [late, refused] None) [SIGINT, SIGTERM]) = Returns (Some SIGTERM, OK) \<or>
    snd (stopProcess (child [late, refused] None) [SIGINT, SIGTERM]) = Returns (None, FailedToKillApp) \<or>
    snd (stopProcess (child [late, refused] None) [SIGINT, SIGTERM]) = Exits 1)"
proof -
  obtain n r where
    run: "stopProcess (child [late, refused] None) [SIGINT, SIGTERM] =
      ((child [late, refused] None)\<lparr>calls := calls (child [late, refused] None) @
         take n (map Signal [SIGINT, SIGTERM] @ [Kill])\<rparr>, r)"
    and n: "1 \<le> n" "n \<le> length [SIGINT, SIGTERM] + 1"
    and r: "if n \<le> length [SIGINT, SIGTERM]
            then r = Returns (Some ([SIGINT, SIGTERM] ! (n - 1)), OK)
            else r = Returns (None, FailedToKillApp) \<or> r = Exits 1"
    using stopProcess_terminates [of "child [late, refused] None" "[SIGINT, SIGTERM]"]
    by blast
  have none: "calls (child [late, refused] None) = []"
    by (simp add: child_def)
  have "n = 1 \<or> n = 2 \<or> n = 3"
    using n by auto
  then show ?thesis
    using r by (auto simp add: run none simp del: stopProcess.simps)
qed

subsection \<open>The exit status after an accepted signal\<close>

text \<open>
  C4. When a signal \<open>sig\<close> was received and the escalation ends with a signal \<open>s\<close>
  accepted, \<^verbatim>\<open>runCommand\<close> returns \<^verbatim>\<open>OK\<close> if \<open>s\<close> is the signal received or is
  \<^verbatim>\<open>SIGINT\<close>, and \<^verbatim>\<open>InsufficientSignalError\<close> for every other accepted signal; the
  fallback \<^verbatim>\<open>SIGTERM\<close> is such a signal whenever the signal received was another.
\<close>

theorem runCommand_signal_status:
  assumes "start_err w = None" and "first_event w = SignalReceived sig"
    and "snd (stopProcess (proc w) [sig, SIGTERM, SIGHUP]) = Returns (Some s, OK)"
  shows "snd (runCommand w) =
    Returns (if s = sig \<or> s = SIGINT then OK else InsufficientSignalError)"
  using assms
  by (cases "stopProcess (proc w) [sig, SIGTERM, SIGHUP]") (auto simp: runCommand_def)

theorem runCommand_signal_status_witness:
  "snd (runCommand (world_of None (SignalReceived SIGINT) (child [acked] None))) = Returns OK \<and>
   snd (runCommand (world_of None (SignalReceived SIGINT) (child [late, acked] None))) =
     Returns InsufficientSignalError \<and>
   snd (runCommand (world_of None (SignalReceived SIGTERM) (child [refused, acked] None))) =
     Returns OK"
  using
    runCommand_signal_status
      [of "world_of None (SignalReceived SIGINT) (child [acked] None)" SIGINT SIGINT]
    runCommand_signal_status
      [of "world_of None (SignalReceived SIGINT) (child [late, acked] None)" SIGINT SIGTERM]
    runCommand_signal_status
      [of "world_of None (SignalReceived SIGTERM) (child [refused, acked] None)" SIGTERM SIGTERM]
  by (simp add: env_defs)

subsection \<open>The escalation plan\<close>

text \<open>
  C5. The plan that \<^verbatim>\<open>runCommand\<close> hands to \<^verbatim>\<open>stopProcess\<close> on line 279 is the
  signal received, then \<^verbatim>\<open>SIGTERM\<close>, then \<^verbatim>\<open>SIGHUP\<close>: a child that refuses every
  signal is sent all three before the kill, for either signal the program listens to.
\<close>

theorem runCommand_plan_calls:
  "calls (fst (runCommand (world_of None (SignalReceived SIGINT) (child [] None)))) =
     [Signal SIGINT, Signal SIGTERM, Signal SIGHUP, Kill] \<and>
   calls (fst (runCommand (world_of None (SignalReceived SIGTERM) (child [] None)))) =
     [Signal SIGTERM, Signal SIGTERM, Signal SIGHUP, Kill]"
  by (simp add: env_defs runCommand_def)

subsection \<open>A child that cannot be started\<close>

text \<open>
  C6. When \<^verbatim>\<open>cmd.Start\<close> fails, \<^verbatim>\<open>log.Fatal\<close> on line 251 ends the program with
  status 1, whatever the error and the rest of the world: \<^verbatim>\<open>runCommand\<close> does not
  return, \<^verbatim>\<open>main\<close> does not reach its last lines, and the status is not that of
  \<^verbatim>\<open>CannotStartApp\<close>.
\<close>

theorem runCommand_start_failure:
  "runCommand (w\<lparr>start_err := Some e\<rparr>) = (proc w, Exits 1) \<and>
   main_go [''/bin/app''] (w\<lparr>start_err := Some e\<rparr>) = AbruptExit 1 \<and>
   int_of_AppError CannotStartApp = 2"
  by (simp add: main_defs)

subsection \<open>A child that ends by itself\<close>

text \<open>
  C7. When the child is started and ends by itself before a signal is taken,
  \<^verbatim>\<open>runCommand\<close> returns \<^verbatim>\<open>OK\<close> for exit code zero and \<^verbatim>\<open>AppStoppedWithError\<close>
  for every other exit code, and the process is returned as it was: no call was made
  on it, so nothing was escalated.
\<close>

theorem runCommand_child_exit:
  assumes "start_err w = None" and "first_event w = ChildExited code"
  shows "runCommand w = (proc w, Returns (if code = 0 then OK else AppStoppedWithError))"
  using assms by (simp add: runCommand_def cmd_Wait_def)

theorem runCommand_child_exit_witness:
  "runCommand (world_of None (ChildExited 0) (child [] None)) = (child [] None, Returns OK) \<and>
   runCommand (world_of None (ChildExited 1) (child [] None)) =
     (child [] None, Returns AppStoppedWithError) \<and>
   calls (child [] None) = []"
  using runCommand_child_exit [of "world_of None (ChildExited 0) (child [] None)" 0]
    runCommand_child_exit [of "world_of None (ChildExited 1) (child [] None)" 1]
  by (simp add: world_of_def child_def)

subsection \<open>Arguments after the marker\<close>

text \<open>
  C8. For the argument list \<^verbatim>\<open>["--", "/bin/false"]\<close> flag parsing returns
  \<^verbatim>\<open>["/bin/false", ""]\<close>: the first pass of \<^verbatim>\<open>eatFlag\<close> drops the marker and
  returns a slice of the length of its input, so an empty string stands at its end and
  the child is given one empty argument. With the marker gone after the first pass, a
  \<^verbatim>\<open>-h\<close> behind it is taken as the help flag by the second.
\<close>

theorem parseFlags_after_marker:
  "eatFlag [''--'', ''/bin/false''] [''-V'', ''--version''] 0 =
     Returns ([], [''/bin/false'', ''''], FlagNotFound) \<and>
   main_go [''--'', ''/bin/false''] (world_of None (ChildExited 1) (child [] None)) =
     NormalExit (int_of_AppError AppStoppedWithError) Stderr
       (Some (''/bin/false'', [''''])) [] \<and>
   parseFlags [''--'', ''/usr/bin/app'', ''-h''] = Panics"
  by (simp add: env_defs main_defs)

subsection \<open>The init-log flag before a command\<close>

text \<open>
  C9. For the argument list \<^verbatim>\<open>["--init-log", "log.txt", "/bin/app"]\<close> the third pass
  of \<^verbatim>\<open>eatFlag\<close> panics: the loop of lines 156-165 runs over all the arguments left,
  not over \<^verbatim>\<open>paramCount\<close> of them, and writes \<^verbatim>\<open>params[1]\<close> in a slice of length
  one. The program ends there; no option is set and no command is run.
\<close>

theorem parseFlags_init_log_panics:
  "paramLoop [''--init-log'', ''log.txt'', ''/bin/app''] 2 1 2 [''log.txt''] = IndexOutOfRange \<and>
   eatFlag [''--init-log'', ''log.txt'', ''/bin/app''] [''--init-log''] 1 = Panics \<and>
   parseFlags [''--init-log'', ''log.txt'', ''/bin/app''] = Panics \<and>
   main_go [''--init-log'', ''log.txt'', ''/bin/app'']
     (world_of None (ChildExited 0) (child [] None)) = Panicked"
  by (simp add: env_defs main_defs)

end
